theory Spec2Isabelle
  imports Main
begin

section \<open>The websocket manipulator: data model\<close>

text \<open>
  The development embeds the package \<open>manipwebsocket\<close>. Goroutines are modelled one at a
  time: each function takes the values that the outside world hands to it (the result of a
  dial, of a socket read, of a \<open>select\<close>, the value of a shared flag read under its lock)
  as an explicit environment argument, and returns the new state together with the list of
  the effects it performed, in program order.
\<close>

text \<open>A channel made by \<open>make(chan *elemental.Response)\<close> is named by its address.\<close>

type_synonym chan = nat

text \<open>The fields of \<open>elemental.Request\<close>, \<open>elemental.Response\<close>, \<open>elemental.Identity\<close> and
  \<open>elemental.Event\<close> that the package reads. The pointer \<open>Request\<close> of a response that was
  read from the socket is taken to be set.\<close>

record Request =
  RequestID :: string
  Namespace :: string
  Username :: string
  Password :: string

record Response =
  StatusCode :: int
  Request :: Request
  Total :: int

record Identity =
  Name :: string
  Category :: string

record Event =
  Identity :: string
  Type :: string

text \<open>The errors of package \<open>manipulate\<close> that the package builds itself, an error of another
  package returned unchanged (\<open>ErrOther\<close>), and the errors of \<open>decodeErrors\<close>, whose source is
  not part of the development: every function that calls it takes it as its first argument.\<close>

datatype error =
    ErrCannotCommunicate string
  | ErrCannotMarshal string
  | ErrCannotUnmarshal string
  | ErrNotImplemented string
  | ErrCannotExecuteQuery string
  | ErrObjectNotFound string
  | ErrOther string

text \<open>A \<open>*websocket.Conn\<close>. A connection obtained from \<open>websocket.DialConfig\<close> is a client
  connection; \<open>Close\<close> closes it, and returns an error, without panicking, on a connection
  that is closed already.\<close>

record Conn =
  IsClientConn :: bool
  closed :: bool

definition dialedConn :: Conn where
  "dialedConn = \<lparr>IsClientConn = True, closed = False\<rparr>"


text \<open>The struct \<open>websocketManipulator\<close>. The four mutexes guard single reads and writes of
  the field they belong to and are not represented; \<open>tlsConfig\<close> is handed to the dial
  unchanged and is left out.\<close>

record websocketManipulator =
  responsesChanRegistry :: "string \<rightharpoonup> chan"
  namespace :: string
  password :: string
  receiveAll :: bool
  running :: bool
  url :: string
  username :: string
  ws :: "Conn option"

text \<open>The effects that appear in a trace: log lines, the five second wait, the operations on
  the registry and on the sockets (\<open>SocketWrite\<close> is the call of \<open>websocket.JSON.Send\<close> for
  the request with that ID, \<open>ChanSend\<close> the send of a response on a channel), the Go panic,
  and for a subscription the hand-over of the disconnect function to \<open>Subscribe\<close> and the
  calls of the two handlers (\<open>HandlerCall (Some event) None\<close> is \<open>handler(event, nil)\<close>,
  \<open>HandlerCall None (Some err)\<close> is \<open>handler(nil, err)\<close>; the event handler is taken to be a
  function, not nil).\<close>

datatype action =
    LogInfo string
  | LogWarn string
  | LogError string
  | Sleep nat
  | RegistryCleared
  | DialSucceeded string
  | DialFailed string
  | HandshakeRead
  | SocketWrite string
  | Registered string chan
  | Unregistered string
  | ChanSend chan Response
  | Panic string
  | PublishDisconnectFunc
  | RecoHandlerCall
  | HandlerCall "Event option" "string option"

section \<open>Response router\<close>

text \<open>\<open>registerResponseChannel\<close>; the third argument is the channel that \<open>make\<close> returns.\<close>

definition registerResponseChannel ::
  "websocketManipulator \<Rightarrow> string \<Rightarrow> chan \<Rightarrow> chan \<times> websocketManipulator" where
  "registerResponseChannel s rid ch =
     (ch, s\<lparr>responsesChanRegistry := (responsesChanRegistry s)(rid \<mapsto> ch)\<rparr>)"

definition unregisterResponseChannel ::
  "websocketManipulator \<Rightarrow> string \<Rightarrow> websocketManipulator" where
  "unregisterResponseChannel s rid =
     s\<lparr>responsesChanRegistry := (responsesChanRegistry s)(rid := None)\<rparr>"

definition unregisterAllResponseChannels :: "websocketManipulator \<Rightarrow> websocketManipulator" where
  "unregisterAllResponseChannels s = s\<lparr>responsesChanRegistry := Map.empty\<rparr>"

text \<open>\<open>responseChannelForID\<close>: a missing key reads as the nil channel, \<open>None\<close>.\<close>

definition responseChannelForID :: "websocketManipulator \<Rightarrow> string \<Rightarrow> chan option" where
  "responseChannelForID s rid = responsesChanRegistry s rid"

section \<open>Credential store and token refresher\<close>

definition setPassword :: "websocketManipulator \<Rightarrow> string \<Rightarrow> websocketManipulator" where
  "setPassword s p = s\<lparr>password := p\<rparr>"

definition currentPassword :: "websocketManipulator \<Rightarrow> string" where
  "currentPassword s = password s"

text \<open>One firing of the ticker case of \<open>renewMidgardToken\<close>. The argument is what
  \<open>mclient.IssueFromCertificate\<close> returned: the token and the error.\<close>

definition renewTick ::
  "websocketManipulator \<Rightarrow> string \<times> string option \<Rightarrow> websocketManipulator \<times> action list" where
  "renewTick s issued =
     (let token = fst issued; err = snd issued;
          logs = [LogInfo ''Refreshing Midgard token...''] @
                 (if err \<noteq> None then [LogError ''Unable to renew token.''] else [])
      in (s\<lparr>password := token\<rparr>, logs))"

text \<open>The loop of \<open>renewMidgardToken\<close>: each item of the script is the case that \<open>select\<close>
  takes, a tick with the provider's answer or the stop signal.\<close>

datatype renew_event = Tick "string \<times> string option" | Stop

fun renewMidgardToken ::
  "websocketManipulator \<Rightarrow> renew_event list \<Rightarrow> websocketManipulator \<times> action list" where
  "renewMidgardToken s [] = (s, [])"
| "renewMidgardToken s (Stop # es) = (s, [])"
| "renewMidgardToken s (Tick issued # es) =
     (let (s1, logs) = renewTick s issued;
          (s2, logs2) = renewMidgardToken s1 es
      in (s2, logs @ logs2))"

section \<open>Request gateway: send\<close>

text \<open>What the \<open>select\<close> of \<open>send\<close> takes: a response on the channel, or the 30 second timer.\<close>

datatype selected = Delivered Response | TimedOut

record send_env =
  sendError :: "string option"
  madeChan :: chan
  selectCase :: selected

definition send ::
  "(Response \<Rightarrow> error) \<Rightarrow> websocketManipulator \<Rightarrow> Request \<Rightarrow> send_env
     \<Rightarrow> (error + Response) \<times> websocketManipulator \<times> action list" where
  "send decodeErrors s request env =
     (case ws s of
        None \<Rightarrow> (Inl (ErrCannotCommunicate ''Websocket not initialized''), s, [])
      | Some c \<Rightarrow>
          (case sendError env of
             Some e \<Rightarrow> (Inl (ErrCannotCommunicate e), s, [SocketWrite (RequestID request)])
           | None \<Rightarrow>
               (let (ch, s1) = registerResponseChannel s (RequestID request) (madeChan env);
                    result =
                      (case selectCase env of
                         Delivered response \<Rightarrow>
                           if StatusCode response < 200 \<or> StatusCode response > 300
                           then Inl (decodeErrors response)
                           else Inr response
                       | TimedOut \<Rightarrow> Inl (ErrCannotCommunicate ''Request timeout''));
                    s2 = unregisterResponseChannel s1 (RequestID request)
                in (result, s2,
                    [SocketWrite (RequestID request),
                     Registered (RequestID request) ch,
                     Unregistered (RequestID request)]))))"

section \<open>Connection supervisor\<close>

text \<open>\<open>strings.Replace(s, old, new, 1)\<close>: the first occurrence of \<open>old\<close> is replaced.\<close>

fun replaceFirst :: "string \<Rightarrow> string \<Rightarrow> string \<Rightarrow> string" where
  "replaceFirst old new [] = (if old = [] then new else [])"
| "replaceFirst old new (c # cs) =
     (if take (length old) (c # cs) = old then new @ drop (length old) (c # cs)
      else c # replaceFirst old new cs)"

text \<open>The URL that \<open>connect\<close> (path \<open>/wsapi\<close>) and \<open>Subscribe\<close> (path \<open>/events\<close>) build,
  by the same statements.\<close>

definition endpointURL :: "websocketManipulator \<Rightarrow> string \<Rightarrow> bool \<Rightarrow> string" where
  "endpointURL s path modeAll =
     (let u = replaceFirst ''http://'' ''ws://'' (url s);
          u = replaceFirst ''https://'' ''wss://'' u;
          u = u @ path @ ''?token='' @ currentPassword s @ ''&namespace='' @ namespace s
      in if modeAll then u @ ''&mode=all'' else u)"

text \<open>What one call of \<open>connect\<close> meets: the results of \<open>websocket.NewConfig\<close>, of
  \<open>websocket.DialConfig\<close> and of the read of the handshake response.\<close>

record connect_env =
  configError :: "string option"
  dialError :: "string option"
  handshake :: "string + Response"

definition connect ::
  "(Response \<Rightarrow> error) \<Rightarrow> websocketManipulator \<Rightarrow> connect_env
     \<Rightarrow> error option \<times> websocketManipulator \<times> action list" where
  "connect decodeErrors s env =
     (let s1 = unregisterAllResponseChannels s;
          u = endpointURL s1 ''/wsapi'' (receiveAll s1)
      in case configError env of
           Some e \<Rightarrow> (Some (ErrOther e), s1, [RegistryCleared])
         | None \<Rightarrow>
             (case dialError env of
                Some e \<Rightarrow>
                  (Some (ErrCannotCommunicate e), s1\<lparr>ws := None\<rparr>,
                   [RegistryCleared, DialFailed u])
              | None \<Rightarrow>
                  (let s2 = s1\<lparr>ws := Some dialedConn\<rparr>;
                       acts = [RegistryCleared, DialSucceeded u, HandshakeRead]
                   in case handshake env of
                        Inl e \<Rightarrow> (Some (ErrCannotCommunicate e), s2, acts)
                      | Inr response \<Rightarrow>
                          if StatusCode response \<noteq> 200
                          then (Some (decodeErrors response), s2, acts)
                          else (None, s2, acts))))"

text \<open>The loop of \<open>listen\<close>, one blocking operation per step: in \<open>Listening\<close> the read of a
  frame, in \<open>Reconnecting\<close> one attempt of the inner loop, a call of \<open>connect\<close>.\<close>

datatype listen_pc = Listening | Reconnecting | ListenReturned

record listen_env =
  received :: "string + Response"
  connectEnv :: connect_env

definition listenStep ::
  "(Response \<Rightarrow> error) \<Rightarrow> websocketManipulator \<Rightarrow> listen_pc \<Rightarrow> listen_env
     \<Rightarrow> websocketManipulator \<times> listen_pc \<times> action list" where
  "listenStep decodeErrors s at env =
     (case at of
        ListenReturned \<Rightarrow> (s, ListenReturned, [])
      | Listening \<Rightarrow>
          (case received env of
             Inr response \<Rightarrow>
               (s, Listening,
                case responseChannelForID s (RequestID (Request response)) of
                  None \<Rightarrow> []
                | Some ch \<Rightarrow> [ChanSend ch response])
           | Inl err \<Rightarrow>
               if \<not> running s then (s, ListenReturned, [])
               else (s, Reconnecting, [LogWarn ''Websocket connection died. Reconnecting...'']))
      | Reconnecting \<Rightarrow>
          (case connect decodeErrors s (connectEnv env) of
             (Some err, s1, acts) \<Rightarrow>
               (s1, Reconnecting,
                acts @ [LogWarn ''Websocket not available. Retrying in 5s...'', Sleep 5])
           | (None, s1, acts) \<Rightarrow>
               (s1, Listening, acts @ [LogInfo ''Websocket connection restored.''])))"

fun listen ::
  "(Response \<Rightarrow> error) \<Rightarrow> websocketManipulator \<Rightarrow> listen_pc \<Rightarrow> listen_env list
     \<Rightarrow> websocketManipulator \<times> listen_pc \<times> action list" where
  "listen decodeErrors s at [] = (s, at, [])"
| "listen decodeErrors s at (e # es) =
     (case listenStep decodeErrors s at e of
        (s1, at1, acts) \<Rightarrow>
          (case listen decodeErrors s1 at1 es of
             (s2, at2, acts2) \<Rightarrow> (s2, at2, acts @ acts2)))"

section \<open>Lifecycle\<close>






section \<open>Subscription worker\<close>

text \<open>The map \<open>relatedIdentities\<close> that \<open>Subscribe\<close> fills; a nil slice of identities is
  \<open>None\<close>, a slice that is not nil is \<open>Some\<close> of its elements.\<close>

definition relatedIdentities :: "Identity list option \<Rightarrow> (string \<rightharpoonup> bool)" where
  "relatedIdentities identities =
     (case identities of
        None \<Rightarrow> Map.empty
      | Some ids \<Rightarrow> foldl (\<lambda>m i. m(Name i \<mapsto> True)) Map.empty ids)"

text \<open>The goroutine of \<open>Subscribe\<close>, one blocking operation per step: in \<open>Dialing\<close> one
  iteration of the outer loop up to the dial, in \<open>Receiving\<close> one iteration of the inner
  loop. \<open>stoppedRead\<close> is the value of \<open>stopped\<close> that the step reads under the lock,
  \<open>passwordRead\<close> the value that \<open>s.currentPassword()\<close> returns when the iteration of the
  outer loop builds its URL (the token refresher may have replaced it since the last dial).\<close>

datatype sub_pc = Dialing | Receiving | Returned | Panicked

record sub_state =
  pc :: sub_pc
  subWs :: "Conn option"
  needsPublishDisconnectFunc :: bool
  needsReconnectionHandlerCall :: bool

record sub_env =
  passwordRead :: string
  subConfigError :: "string option"
  stoppedRead :: bool
  subDialError :: "string option"
  subReceived :: "string + Event"

definition subInit :: sub_state where
  "subInit = \<lparr>pc = Dialing, subWs = None, needsPublishDisconnectFunc = True,
              needsReconnectionHandlerCall = False\<rparr>"

text \<open>The URL of the events endpoint that an iteration of the outer loop builds.\<close>

abbreviation eventsURL :: "websocketManipulator \<Rightarrow> bool \<Rightarrow> sub_env \<Rightarrow> string" where
  "eventsURL s allNamespaces env \<equiv>
     endpointURL (s\<lparr>password := passwordRead env\<rparr>) ''/events'' allNamespaces"

text \<open>\<open>recoHandler\<close> is \<open>True\<close> iff the recovery handler passed to \<open>Subscribe\<close> is not nil.\<close>

definition subscribeStep ::
  "websocketManipulator \<Rightarrow> Identity list option \<Rightarrow> bool \<Rightarrow> bool \<Rightarrow> sub_state \<Rightarrow> sub_env
     \<Rightarrow> sub_state \<times> action list" where
  "subscribeStep s identities allNamespaces recoHandler st env =
     (case pc st of
        Returned \<Rightarrow> (st, [])
      | Panicked \<Rightarrow> (st, [])
      | Dialing \<Rightarrow>
          (let u = eventsURL s allNamespaces env
           in case subConfigError env of
                Some e \<Rightarrow> (st\<lparr>pc := Panicked\<rparr>, [Panic e])
              | None \<Rightarrow>
                  if stoppedRead env then (st\<lparr>pc := Returned\<rparr>, [])
                  else
                    (case subDialError env of
                       Some e \<Rightarrow>
                         (st\<lparr>subWs := None\<rparr>,
                          [DialFailed u,
                           LogWarn ''Could not connect to websocket. Retrying in 5s'',
                           Sleep 5])
                     | None \<Rightarrow>
                         (let publish = (if needsPublishDisconnectFunc st
                                         then [PublishDisconnectFunc] else []);
                              callReco = (needsReconnectionHandlerCall st \<and> recoHandler)
                          in (st\<lparr>pc := Receiving, subWs := Some dialedConn,
                                 needsPublishDisconnectFunc := False,
                                 needsReconnectionHandlerCall :=
                                   (if callReco then False
                                    else needsReconnectionHandlerCall st)\<rparr>,
                              [DialSucceeded u] @ publish @
                              (if callReco then [RecoHandlerCall] else [])))))
      | Receiving \<Rightarrow>
          if stoppedRead env then (st\<lparr>pc := Dialing\<rparr>, [])
          else
            (case subReceived env of
               Inl e \<Rightarrow>
                 (st\<lparr>pc := Dialing, needsReconnectionHandlerCall := True\<rparr>,
                  [HandlerCall None (Some e)])
             | Inr event \<Rightarrow>
                 (st,
                  if relatedIdentities identities (Identity event) \<noteq> None \<or> identities = None
                  then [HandlerCall (Some event) None] else [])))"

fun subscribeRun ::
  "websocketManipulator \<Rightarrow> Identity list option \<Rightarrow> bool \<Rightarrow> bool \<Rightarrow> sub_state
     \<Rightarrow> sub_env list \<Rightarrow> sub_state \<times> action list" where
  "subscribeRun s identities allNamespaces recoHandler st [] = (st, [])"
| "subscribeRun s identities allNamespaces recoHandler st (e # es) =
     (case subscribeStep s identities allNamespaces recoHandler st e of
        (st1, acts) \<Rightarrow>
          (case subscribeRun s identities allNamespaces recoHandler st1 es of
             (st2, acts2) \<Rightarrow> (st2, acts @ acts2)))"

text \<open>\<open>Subscribe\<close> starts the goroutine and blocks on the channel on which the goroutine
  publishes the disconnect function; it returns that function and a nil error. \<open>None\<close>: the
  call has not returned by the end of the script.\<close>

datatype EventUnsubscriber = DisconnectFunc

definition Subscribe ::
  "websocketManipulator \<Rightarrow> Identity list option \<Rightarrow> bool \<Rightarrow> bool \<Rightarrow> sub_env list
     \<Rightarrow> (EventUnsubscriber option \<times> error option) option" where
  "Subscribe s identities allNamespaces recoHandler script =
     (if PublishDisconnectFunc
           \<in> set (snd (subscribeRun s identities allNamespaces recoHandler subInit script))
      then Some (Some DisconnectFunc, None)
      else None)"

text \<open>The three effects of one failed dial of the subscription socket.\<close>

abbreviation retryActs :: "string \<Rightarrow> action list" where
  "retryActs u \<equiv>
     [DialFailed u, LogWarn ''Could not connect to websocket. Retrying in 5s'', Sleep 5]"

section \<open>Example values\<close>

text \<open>Concrete inputs at which the results below are evaluated.\<close>

definition exDecodeErrors :: "Response \<Rightarrow> error" where
  "exDecodeErrors response = ErrCannotExecuteQuery ''decoded''"

definition exManipulator :: websocketManipulator where
  "exManipulator =
     \<lparr>responsesChanRegistry = Map.empty, namespace = ''ns'', password = ''T0'',
      receiveAll = False, running = True, url = ''https://api'', username = ''Bearer'',
      ws = Some dialedConn\<rparr>"

definition exBusy :: websocketManipulator where
  "exBusy = exManipulator\<lparr>responsesChanRegistry := [''r1'' \<mapsto> 3]\<rparr>"

definition exRequest :: Request where
  "exRequest =
     \<lparr>RequestID = ''r1'', Namespace = ''ns'', Username = ''Bearer'', Password = ''T0''\<rparr>"

definition exResponse200 :: Response where
  "exResponse200 = \<lparr>StatusCode = 200, Request = exRequest, Total = 0\<rparr>"

definition exResponse300 :: Response where
  "exResponse300 = \<lparr>StatusCode = 300, Request = exRequest, Total = 0\<rparr>"

definition exConnectOk :: connect_env where
  "exConnectOk = \<lparr>configError = None, dialError = None, handshake = Inr exResponse200\<rparr>"




definition exIdentity :: Identity where
  "exIdentity = \<lparr>Name = ''thing'', Category = ''things''\<rparr>"

definition exEvent :: Event where
  "exEvent = \<lparr>Identity = ''thing'', Type = ''create''\<rparr>"

definition exReceiving :: sub_state where
  "exReceiving =
     \<lparr>pc = Receiving, subWs = Some dialedConn, needsPublishDisconnectFunc = False,
      needsReconnectionHandlerCall = False\<rparr>"

definition exUp :: sub_env where
  "exUp = \<lparr>passwordRead = ''T0'', subConfigError = None, stoppedRead = False,
           subDialError = None, subReceived = Inr exEvent\<rparr>"

definition exDown :: sub_env where
  "exDown = \<lparr>passwordRead = ''T0'', subConfigError = None, stoppedRead = False,
             subDialError = Some ''no such host'', subReceived = Inl ''unexpected EOF''\<rparr>"

definition exURL :: string where
  "exURL = ''wss://api/events?token=T0&namespace=ns''"

section \<open>Token refresher: results\<close>

lemma renewTick_password: "password (fst (renewTick s (token, err))) = token"
  by (simp add: renewTick_def)

text \<open>
  C1. The claim is that a tick on which the identity provider fails leaves the stored
  password as it was. \<open>renewMidgardToken\<close> logs the failure and then stores the token it
  was handed all the same: with the password \<open>T0\<close> and a provider that answers with the
  empty token and an error, the password after the tick is the empty string.
\<close>

theorem renew_failure_overwrites_password:
  "password exManipulator = ''T0'' \<and>
   password (fst (renewTick exManipulator ('''', Some ''provider unreachable''))) = '''' \<and>
   renewMidgardToken exManipulator [Tick ('''', Some ''provider unreachable'')] =
     (exManipulator\<lparr>password := ''''\<rparr>,
      [LogInfo ''Refreshing Midgard token...'', LogError ''Unable to renew token.''])"
  by (simp add: renewTick_def exManipulator_def)

section \<open>Response router: results\<close>

text \<open>
  C4. The claim is that registering a request ID that is present panics.
  \<open>registerResponseChannel\<close> has no such check: at the registry \<open>r1 \<mapsto> 3\<close> the call for
  \<open>r1\<close> returns the new channel 8, and the registry maps \<open>r1\<close> to 8.
\<close>

theorem register_present_example:
  "responsesChanRegistry exBusy ''r1'' = Some 3 \<and>
   fst (registerResponseChannel exBusy ''r1'' 8) = 8 \<and>
   responsesChanRegistry (snd (registerResponseChannel exBusy ''r1'' 8)) ''r1'' = Some 8"
  by (simp add: registerResponseChannel_def exBusy_def)

text \<open>
  C4, as the code has it. For a request ID that is present, \<open>registerResponseChannel\<close>
  returns the channel just made and stores it in place of the old one: the registry has
  the same keys as before, and every other entry is unchanged.
\<close>

theorem register_present_replaces:
  assumes "responsesChanRegistry s rid = Some old"
  shows "fst (registerResponseChannel s rid ch) = ch \<and>
         responsesChanRegistry (snd (registerResponseChannel s rid ch)) rid = Some ch \<and>
         dom (responsesChanRegistry (snd (registerResponseChannel s rid ch))) =
           dom (responsesChanRegistry s) \<and>
         (\<forall>r. r \<noteq> rid \<longrightarrow>
            responsesChanRegistry (snd (registerResponseChannel s rid ch)) r =
              responsesChanRegistry s r)"
  using assms by (auto simp add: registerResponseChannel_def)

theorem register_present_replaces_witness:
  "responsesChanRegistry exBusy ''r1'' = Some 3 \<and>
   fst (registerResponseChannel exBusy ''r1'' 8) = 8 \<and>
   responsesChanRegistry (snd (registerResponseChannel exBusy ''r1'' 8)) ''r1'' = Some 8 \<and>
   dom (responsesChanRegistry (snd (registerResponseChannel exBusy ''r1'' 8))) =
     dom (responsesChanRegistry exBusy)"
proof -
  have h: "responsesChanRegistry exBusy ''r1'' = Some 3"
    by (simp add: exBusy_def)
  from register_present_replaces [OF h, of 8] h show ?thesis by blast
qed

section \<open>Request gateway: results\<close>

lemma send_delivered:
  assumes "ws s \<noteq> None" and "sendError env = None" and "selectCase env = Delivered response"
  shows "fst (send decodeErrors s request env) =
           (if 200 \<le> StatusCode response \<and> StatusCode response \<le> 300 then Inr response
            else Inl (decodeErrors response))"
  using assms
  by (auto simp add: send_def registerResponseChannel_def split: option.splits)

text \<open>
  C2. The claim is that a delivered response is a success iff its status code is at least
  200 and below 300, so that 300 gives an error. The test of \<open>send\<close> is
  \<open>StatusCode < 200 || StatusCode > 300\<close>: a response with status code 300 is returned
  as a success, whatever \<open>decodeErrors\<close> is.
\<close>

theorem send_accepts_status_300:
  "fst (send decodeErrors exManipulator exRequest
          \<lparr>sendError = None, madeChan = 7, selectCase = Delivered exResponse300\<rparr>) =
     Inr exResponse300"
  by (simp add: send_def registerResponseChannel_def exManipulator_def exResponse300_def)

text \<open>
  C3. The claim is that the waiter of a request is registered before its frame is written.
  \<open>send\<close> writes the frame first and registers the channel afterwards. At the moment of
  the write the registry has no entry for the request, and a response that \<open>listen\<close> reads
  then is dropped: its step sends on no channel.
\<close>

theorem send_registers_after_write:
  "snd (snd (send decodeErrors exManipulator exRequest
               \<lparr>sendError = None, madeChan = 7, selectCase = TimedOut\<rparr>)) =
     [SocketWrite ''r1'', Registered ''r1'' 7, Unregistered ''r1''] \<and>
   responseChannelForID exManipulator ''r1'' = None \<and>
   listenStep decodeErrors exManipulator Listening
       \<lparr>received = Inr exResponse200, connectEnv = exConnectOk\<rparr> =
     (exManipulator, Listening, [])"
  by (simp add: send_def registerResponseChannel_def unregisterResponseChannel_def
      listenStep_def responseChannelForID_def exManipulator_def exRequest_def
      exResponse200_def)

text \<open>
  C7. When the frame was written and the 30 second timer fires before a response is
  delivered, \<open>send\<close> returns \<open>CannotCommunicate("Request timeout")\<close>, and the deferred
  \<open>unregisterResponseChannel\<close> has run: it is the last effect, and the registry has no
  entry for the request ID.
\<close>

theorem send_timeout_unregisters:
  assumes "ws s \<noteq> None" and "sendError env = None" and "selectCase env = TimedOut"
  shows "fst (send decodeErrors s request env) =
           Inl (ErrCannotCommunicate ''Request timeout'') \<and>
         responseChannelForID (fst (snd (send decodeErrors s request env)))
           (RequestID request) = None \<and>
         snd (snd (send decodeErrors s request env)) =
           [SocketWrite (RequestID request),
            Registered (RequestID request) (madeChan env),
            Unregistered (RequestID request)]"
  using assms
  by (auto simp add: send_def registerResponseChannel_def unregisterResponseChannel_def
      responseChannelForID_def split: option.splits)

theorem send_timeout_unregisters_witness:
  "ws exBusy \<noteq> None \<and>
   fst (send exDecodeErrors exBusy exRequest
          \<lparr>sendError = None, madeChan = 7, selectCase = TimedOut\<rparr>) =
     Inl (ErrCannotCommunicate ''Request timeout'') \<and>
   responseChannelForID
     (fst (snd (send exDecodeErrors exBusy exRequest
                  \<lparr>sendError = None, madeChan = 7, selectCase = TimedOut\<rparr>))) ''r1'' = None"
proof -
  have h: "ws exBusy \<noteq> None"
    by (simp add: exBusy_def exManipulator_def)
  have r: "RequestID exRequest = ''r1''"
    by (simp add: exRequest_def)
  from send_timeout_unregisters [OF h, of "\<lparr>sendError = None, madeChan = 7,
      selectCase = TimedOut\<rparr>" exDecodeErrors exRequest] h r
  show ?thesis by simp
qed

section \<open>Connection supervisor: results\<close>





section \<open>Lifecycle: results\<close>





section \<open>Subscription worker: the event filter\<close>

lemma relatedIdentities_fold:
  "(foldl (\<lambda>m i. m(Name i \<mapsto> True)) m0 ids k \<noteq> None) =
     (m0 k \<noteq> None \<or> k \<in> Name ` set ids)"
  by (induction ids arbitrary: m0) (auto simp del: not_None_eq)

lemma relatedIdentities_member:
  "(relatedIdentities identities k \<noteq> None) =
     (case identities of None \<Rightarrow> False | Some ids \<Rightarrow> k \<in> Name ` set ids)"
  by (cases identities)
    (simp_all add: relatedIdentities_def relatedIdentities_fold del: not_None_eq)

text \<open>
  C5. The claim is that a received event reaches the handler iff the filter is empty or
  holds the identity of the event. \<open>Subscribe\<close> tests \<open>identities == nil\<close>, not the length
  of the slice: with a slice that is empty but not nil the map of related identities is
  empty and the event is not handed to the handler, while with the nil slice it is.
\<close>

theorem empty_filter_drops_event:
  "subReceived exUp = Inr exEvent \<and>
   subscribeStep exManipulator (Some []) False True exReceiving exUp = (exReceiving, []) \<and>
   subscribeStep exManipulator None False True exReceiving exUp =
     (exReceiving, [HandlerCall (Some exEvent) None])"
  by (simp add: subscribeStep_def relatedIdentities_def exReceiving_def exUp_def)

text \<open>
  C5, as the code has it. For an event received while the subscription is not stopped,
  \<open>handler(event, nil)\<close> is called iff the slice of identities is nil or one of its
  elements has the identity of the event as its name. A subscription with a nil filter
  delivers every such event.
\<close>

theorem handler_called_iff_nil_or_member:
  assumes "pc st = Receiving" and "\<not> stoppedRead env" and "subReceived env = Inr event"
  shows "(HandlerCall (Some event) None
            \<in> set (snd (subscribeStep s identities allNamespaces recoHandler st env))) =
         (case identities of
            None \<Rightarrow> True
          | Some ids \<Rightarrow> Identity event \<in> Name ` set ids)"
  using assms
  by (cases identities)
    (auto simp add: subscribeStep_def relatedIdentities_member simp del: not_None_eq)

theorem handler_called_iff_nil_or_member_witness:
  "pc exReceiving = Receiving \<and> \<not> stoppedRead exUp \<and> subReceived exUp = Inr exEvent \<and>
   HandlerCall (Some exEvent) None
     \<in> set (snd (subscribeStep exManipulator (Some [exIdentity]) False True exReceiving exUp))"
proof -
  have h: "pc exReceiving = Receiving" "\<not> stoppedRead exUp" "subReceived exUp = Inr exEvent"
    by (simp_all add: exReceiving_def exUp_def)
  have "Identity exEvent \<in> Name ` set [exIdentity]"
    by (simp add: exEvent_def exIdentity_def)
  with handler_called_iff_nil_or_member [OF h, of exManipulator "Some [exIdentity]" False True] h
  show ?thesis by simp
qed

section \<open>Subscription worker: runs of the goroutine\<close>

lemma run_Cons:
  "subscribeStep s ids alln reco st e = (st1, acts) \<Longrightarrow>
   snd (subscribeRun s ids alln reco st (e # es)) =
     acts @ snd (subscribeRun s ids alln reco st1 es)"
  by (simp split: prod.splits)

lemma step_finished:
  "pc st = Returned \<or> pc st = Panicked \<Longrightarrow> subscribeStep s ids alln reco st e = (st, [])"
  by (auto simp add: subscribeStep_def)

lemma run_finished:
  "pc st = Returned \<or> pc st = Panicked \<Longrightarrow>
   snd (subscribeRun s ids alln reco st script) = []"
  by (induction script) (simp_all add: step_finished split: prod.splits)






lemma step_first_dial:
  assumes "subscribeStep s ids alln reco st e = (st1, acts)"
    and "pc st = Dialing" and "needsPublishDisconnectFunc st"
  shows "((pc st1 = Returned \<or> pc st1 = Panicked) \<and> PublishDisconnectFunc \<notin> set acts) \<or>
         (subConfigError e = None \<and> \<not> stoppedRead e \<and> subDialError e \<noteq> None \<and>
            pc st1 = Dialing \<and> needsPublishDisconnectFunc st1 \<and>
            acts = retryActs (eventsURL s alln e)) \<or>
         (subConfigError e = None \<and> \<not> stoppedRead e \<and> subDialError e = None \<and>
            (\<exists>more. acts = DialSucceeded (eventsURL s alln e) # PublishDisconnectFunc # more))"
  using assms
  by (auto simp add: subscribeStep_def Let_def
      split: sub_pc.splits option.splits if_splits sum.splits)


lemma step_failed_dial:
  assumes "pc st = Dialing"
    and "subConfigError e = None \<and> \<not> stoppedRead e \<and> subDialError e \<noteq> None"
  shows "subscribeStep s ids alln reco st e =
           (st\<lparr>subWs := None\<rparr>, retryActs (eventsURL s alln e))"
  using assms by (auto simp add: subscribeStep_def)


lemma run_Cons_snd:
  "snd (subscribeRun s ids alln reco st (e # es)) =
     snd (subscribeStep s ids alln reco st e) @
     snd (subscribeRun s ids alln reco (fst (subscribeStep s ids alln reco st e)) es)"
  by (simp split: prod.splits)

lemma run_Cons_fst:
  "fst (subscribeRun s ids alln reco st (e # es)) =
     fst (subscribeRun s ids alln reco (fst (subscribeStep s ids alln reco st e)) es)"
  by (simp split: prod.splits)

lemma run_append_snd:
  "snd (subscribeRun s ids alln reco st (xs @ ys)) =
     snd (subscribeRun s ids alln reco st xs) @
     snd (subscribeRun s ids alln reco (fst (subscribeRun s ids alln reco st xs)) ys)"
  by (induction xs arbitrary: st)
    (simp_all add: run_Cons_snd run_Cons_fst del: subscribeRun.simps(2))


lemma run_failed_dials:
  "pc st = Dialing \<Longrightarrow>
   \<forall>x\<in>set mid. subConfigError x = None \<and> \<not> stoppedRead x \<and> subDialError x \<noteq> None \<Longrightarrow>
   snd (subscribeRun s ids alln reco st mid) =
     concat (map (\<lambda>x. retryActs (eventsURL s alln x)) mid) \<and>
   pc (fst (subscribeRun s ids alln reco st mid)) = Dialing \<and>
   needsReconnectionHandlerCall (fst (subscribeRun s ids alln reco st mid)) =
     needsReconnectionHandlerCall st \<and>
   needsPublishDisconnectFunc (fst (subscribeRun s ids alln reco st mid)) =
     needsPublishDisconnectFunc st"
proof (induction mid arbitrary: st)
  case Nil
  then show ?case by simp
next
  case (Cons e es)
  from Cons.prems have step:
    "subscribeStep s ids alln reco st e = (st\<lparr>subWs := None\<rparr>, retryActs (eventsURL s alln e))"
    by (intro step_failed_dial) simp_all
  from Cons.prems have "pc (st\<lparr>subWs := None\<rparr>) = Dialing"
    and "\<forall>x\<in>set es. subConfigError x = None \<and> \<not> stoppedRead x \<and> subDialError x \<noteq> None"
    by simp_all
  from Cons.IH [OF this] step show ?case
    by (simp add: run_Cons_snd run_Cons_fst del: subscribeRun.simps(2))
qed











lemma eventsURL_example: "eventsURL exManipulator False exUp = exURL"
  "eventsURL exManipulator False exDown = exURL"
  by (simp_all add: endpointURL_def currentPassword_def exManipulator_def exURL_def
      exUp_def exDown_def)



section \<open>Subscription worker: the return of Subscribe\<close>

text \<open>The disconnect function is published right after the first dial that succeeds, and
  every step before it is a failed dial followed by the five second wait.\<close>

lemma publish_after_first_dial:
  "pc st = Dialing \<Longrightarrow> needsPublishDisconnectFunc st \<Longrightarrow>
   PublishDisconnectFunc \<in> set (snd (subscribeRun s ids alln reco st script)) \<Longrightarrow>
   \<exists>pre e post rest. script = pre @ e # post \<and>
      (\<forall>x\<in>set pre. subConfigError x = None \<and> \<not> stoppedRead x \<and> subDialError x \<noteq> None) \<and>
      subConfigError e = None \<and> \<not> stoppedRead e \<and> subDialError e = None \<and>
      snd (subscribeRun s ids alln reco st script) =
        concat (map (\<lambda>x. retryActs (eventsURL s alln x)) pre) @
        DialSucceeded (eventsURL s alln e) # PublishDisconnectFunc # rest"
proof (induction script arbitrary: st)
  case Nil
  then show ?case by simp
next
  case (Cons e es)
  obtain st1 acts where step: "subscribeStep s ids alln reco st e = (st1, acts)"
    by (cases "subscribeStep s ids alln reco st e")
  let ?rest = "snd (subscribeRun s ids alln reco st1 es)"
  let ?failed = "\<lambda>x. subConfigError x = None \<and> \<not> stoppedRead x \<and> subDialError x \<noteq> None"
  have run: "snd (subscribeRun s ids alln reco st (e # es)) = acts @ ?rest"
    by (rule run_Cons [OF step])
  from step_first_dial [OF step Cons.prems(1,2)]
  consider (fin) "pc st1 = Returned \<or> pc st1 = Panicked" "PublishDisconnectFunc \<notin> set acts"
    | (again) "?failed e" "pc st1 = Dialing" "needsPublishDisconnectFunc st1"
        "acts = retryActs (eventsURL s alln e)"
    | (ok) more where "subConfigError e = None" "\<not> stoppedRead e" "subDialError e = None"
        "acts = DialSucceeded (eventsURL s alln e) # PublishDisconnectFunc # more"
    by blast
  then show ?case
  proof cases
    case fin
    from run_finished [OF fin(1)] run fin(2) Cons.prems(3) show ?thesis by simp
  next
    case again
    from Cons.prems(3) run again(4) have "PublishDisconnectFunc \<in> set ?rest"
      by simp
    from Cons.IH [OF again(2,3) this] obtain pre e' post rest where
      h: "es = pre @ e' # post" "\<forall>x\<in>set pre. ?failed x"
         "subConfigError e' = None \<and> \<not> stoppedRead e' \<and> subDialError e' = None"
         "?rest = concat (map (\<lambda>x. retryActs (eventsURL s alln x)) pre) @
                  DialSucceeded (eventsURL s alln e') # PublishDisconnectFunc # rest"
      by blast
    have "e # es = (e # pre) @ e' # post" using h(1) by simp
    moreover have "\<forall>x\<in>set (e # pre). ?failed x" using h(2) again(1) by simp
    moreover have "snd (subscribeRun s ids alln reco st (e # es)) =
        concat (map (\<lambda>x. retryActs (eventsURL s alln x)) (e # pre)) @
        DialSucceeded (eventsURL s alln e') # PublishDisconnectFunc # rest"
      using run again(4) h(4) by simp
    ultimately show ?thesis using h(3) by blast
  next
    case ok
    have "e # es = [] @ e # es" by simp
    moreover have "\<forall>x\<in>set []. ?failed x" by simp
    moreover have "snd (subscribeRun s ids alln reco st (e # es)) =
        concat (map (\<lambda>x. retryActs (eventsURL s alln x)) []) @
        DialSucceeded (eventsURL s alln e) # PublishDisconnectFunc # (more @ ?rest)"
      using run ok(4) by simp
    ultimately show ?thesis using ok(1,2,3) by blast
  qed
qed

text \<open>A dial that succeeds while the disconnect function has not been published yet
  publishes it.\<close>

lemma step_first_dial_succeeds:
  assumes "pc st = Dialing" and "needsPublishDisconnectFunc st"
    and "subConfigError e = None" and "\<not> stoppedRead e" and "subDialError e = None"
  shows "PublishDisconnectFunc \<in> set (snd (subscribeStep s ids alln reco st e))"
  using assms by (simp add: subscribeStep_def Let_def)

lemma Subscribe_returns_when_dial_succeeds:
  assumes pre: "\<forall>x\<in>set pre. subConfigError x = None \<and> \<not> stoppedRead x \<and>
      subDialError x \<noteq> None"
    and e: "subConfigError e = None" "\<not> stoppedRead e" "subDialError e = None"
  shows "Subscribe s identities allNamespaces recoHandler (pre @ e # post) =
           Some (Some DisconnectFunc, None)"
proof -
  let ?run = "subscribeRun s identities allNamespaces recoHandler"
  let ?st = "fst (?run subInit pre)"
  have "pc subInit = Dialing" by (simp add: subInit_def)
  from run_failed_dials [OF this pre, of s identities allNamespaces recoHandler]
  have st: "pc ?st = Dialing" "needsPublishDisconnectFunc ?st"
    by (simp_all add: subInit_def)
  have "snd (?run subInit (pre @ e # post)) =
      snd (?run subInit pre) @
      snd (subscribeStep s identities allNamespaces recoHandler ?st e) @
      snd (?run (fst (subscribeStep s identities allNamespaces recoHandler ?st e)) post)"
    by (simp only: run_append_snd run_Cons_snd)
  with step_first_dial_succeeds [OF st e, of s identities allNamespaces recoHandler]
  have "PublishDisconnectFunc \<in> set (snd (?run subInit (pre @ e # post)))"
    by simp
  then show ?thesis
    by (simp add: Subscribe_def)
qed

text \<open>
  C10. (1) When \<open>Subscribe\<close> returns, the error it returns is nil and the unsubscribe
  handle is the disconnect function, not nil; and it has returned only after a dial
  succeeded: the script splits into dials that all failed, each followed by the warning
  and the five second wait and by nothing else, and the first dial that succeeded, right
  after which the goroutine handed the disconnect function over. (2) As long as every dial
  fails, whatever the error, \<open>Subscribe\<close> has not returned, the goroutine has retried
  after five seconds each time and is about to dial again: no dial error reaches the
  caller. (3) Once a dial succeeds after such failures, \<open>Subscribe\<close> does return, with
  the disconnect function and a nil error.
\<close>

theorem Subscribe_returns_after_first_dial:
  "(Subscribe s identities allNamespaces recoHandler script = Some (handle, err) \<longrightarrow>
      err = None \<and> handle = Some DisconnectFunc \<and>
      (\<exists>pre e post rest. script = pre @ e # post \<and>
         (\<forall>x\<in>set pre. subConfigError x = None \<and> \<not> stoppedRead x \<and>
            subDialError x \<noteq> None) \<and>
         subConfigError e = None \<and> \<not> stoppedRead e \<and> subDialError e = None \<and>
         snd (subscribeRun s identities allNamespaces recoHandler subInit script) =
           concat (map (\<lambda>x. retryActs (eventsURL s allNamespaces x)) pre) @
           DialSucceeded (eventsURL s allNamespaces e) # PublishDisconnectFunc # rest)) \<and>
   ((\<forall>x\<in>set script. subConfigError x = None \<and> \<not> stoppedRead x \<and>
        subDialError x \<noteq> None) \<longrightarrow>
      Subscribe s identities allNamespaces recoHandler script = None \<and>
      snd (subscribeRun s identities allNamespaces recoHandler subInit script) =
        concat (map (\<lambda>x. retryActs (eventsURL s allNamespaces x)) script) \<and>
      pc (fst (subscribeRun s identities allNamespaces recoHandler subInit script)) =
        Dialing) \<and>
   (\<forall>pre e post.
      script = pre @ e # post \<and>
      (\<forall>x\<in>set pre. subConfigError x = None \<and> \<not> stoppedRead x \<and>
         subDialError x \<noteq> None) \<and>
      subConfigError e = None \<and> \<not> stoppedRead e \<and> subDialError e = None \<longrightarrow>
      Subscribe s identities allNamespaces recoHandler script =
        Some (Some DisconnectFunc, None))"
proof (intro conjI allI impI)
  assume a: "Subscribe s identities allNamespaces recoHandler script = Some (handle, err)"
  then have p: "PublishDisconnectFunc
      \<in> set (snd (subscribeRun s identities allNamespaces recoHandler subInit script))"
    and r: "err = None" "handle = Some DisconnectFunc"
    by (auto simp add: Subscribe_def split: if_splits)
  from r show "err = None" "handle = Some DisconnectFunc" .
  have "pc subInit = Dialing" "needsPublishDisconnectFunc subInit"
    by (simp_all add: subInit_def)
  from publish_after_first_dial [OF this p]
  show "\<exists>pre e post rest. script = pre @ e # post \<and>
         (\<forall>x\<in>set pre. subConfigError x = None \<and> \<not> stoppedRead x \<and>
            subDialError x \<noteq> None) \<and>
         subConfigError e = None \<and> \<not> stoppedRead e \<and> subDialError e = None \<and>
         snd (subscribeRun s identities allNamespaces recoHandler subInit script) =
           concat (map (\<lambda>x. retryActs (eventsURL s allNamespaces x)) pre) @
           DialSucceeded (eventsURL s allNamespaces e) # PublishDisconnectFunc # rest" .
next
  assume f: "\<forall>x\<in>set script. subConfigError x = None \<and> \<not> stoppedRead x \<and>
      subDialError x \<noteq> None"
  have "pc subInit = Dialing" by (simp add: subInit_def)
  from run_failed_dials [OF this f, of s identities allNamespaces recoHandler]
  have t: "snd (subscribeRun s identities allNamespaces recoHandler subInit script) =
      concat (map (\<lambda>x. retryActs (eventsURL s allNamespaces x)) script)"
    and p: "pc (fst (subscribeRun s identities allNamespaces recoHandler subInit script)) =
      Dialing"
    by simp_all
  from t show "snd (subscribeRun s identities allNamespaces recoHandler subInit script) =
      concat (map (\<lambda>x. retryActs (eventsURL s allNamespaces x)) script)" .
  from p show "pc (fst (subscribeRun s identities allNamespaces recoHandler subInit script)) =
      Dialing" .
  have "PublishDisconnectFunc
      \<notin> set (concat (map (\<lambda>x. retryActs (eventsURL s allNamespaces x)) script))"
    by auto
  with t show "Subscribe s identities allNamespaces recoHandler script = None"
    by (simp only: Subscribe_def if_False)
next
  fix pre e post
  assume h: "script = pre @ e # post \<and>
      (\<forall>x\<in>set pre. subConfigError x = None \<and> \<not> stoppedRead x \<and> subDialError x \<noteq> None) \<and>
      subConfigError e = None \<and> \<not> stoppedRead e \<and> subDialError e = None"
  then have h1: "\<forall>x\<in>set pre. subConfigError x = None \<and> \<not> stoppedRead x \<and>
      subDialError x \<noteq> None"
    and h2: "subConfigError e = None" "\<not> stoppedRead e" "subDialError e = None"
    by blast+
  from Subscribe_returns_when_dial_succeeds [OF h1 h2, of s identities allNamespaces
      recoHandler post] h
  show "Subscribe s identities allNamespaces recoHandler script =
      Some (Some DisconnectFunc, None)"
    by simp
qed

theorem Subscribe_returns_after_first_dial_witness:
  "Subscribe exManipulator None False True [exDown, exDown, exUp] =
     Some (Some DisconnectFunc, None) \<and>
   subDialError exDown = Some ''no such host'' \<and> subDialError exUp = None \<and>
   Subscribe exManipulator None False True [exDown, exDown] = None \<and>
   snd (subscribeRun exManipulator None False True subInit [exDown, exDown]) =
     retryActs exURL @ retryActs exURL \<and>
   (\<exists>pre e post rest. [exDown, exDown, exUp] = pre @ e # post \<and>
      (\<forall>x\<in>set pre. subConfigError x = None \<and> \<not> stoppedRead x \<and> subDialError x \<noteq> None) \<and>
      subConfigError e = None \<and> \<not> stoppedRead e \<and> subDialError e = None \<and>
      snd (subscribeRun exManipulator None False True subInit [exDown, exDown, exUp]) =
        concat (map (\<lambda>x. retryActs (eventsURL exManipulator False x)) pre) @
        DialSucceeded (eventsURL exManipulator False e) # PublishDisconnectFunc # rest)"
proof -
  have dn: "subConfigError exDown = None" "\<not> stoppedRead exDown"
    "subDialError exDown = Some ''no such host''"
    by (simp_all add: exDown_def)
  have up: "subConfigError exUp = None" "\<not> stoppedRead exUp" "subDialError exUp = None"
    by (simp_all add: exUp_def)
  have f: "\<forall>x\<in>set [exDown, exDown]. subConfigError x = None \<and> \<not> stoppedRead x \<and>
      subDialError x \<noteq> None"
    using dn by simp
  have sp: "[exDown, exDown, exUp] = [exDown, exDown] @ exUp # []"
    by simp
  note r1 = Subscribe_returns_after_first_dial [of exManipulator None False True
      "[exDown, exDown, exUp]" "Some DisconnectFunc" None]
  note r2 = Subscribe_returns_after_first_dial [of exManipulator None False True
      "[exDown, exDown]" "Some DisconnectFunc" None]
  from r1 sp f up
  have a: "Subscribe exManipulator None False True [exDown, exDown, exUp] =
     Some (Some DisconnectFunc, None)"
    by blast
  from r2 f
  have b: "Subscribe exManipulator None False True [exDown, exDown] = None"
    "snd (subscribeRun exManipulator None False True subInit [exDown, exDown]) =
       concat (map (\<lambda>x. retryActs (eventsURL exManipulator False x)) [exDown, exDown])"
    by blast+
  from b(2) have c: "snd (subscribeRun exManipulator None False True subInit [exDown, exDown]) =
     retryActs exURL @ retryActs exURL"
    by (simp only: eventsURL_example list.map concat.simps append_Nil2)
  from r1 a
  have d: "\<exists>pre e post rest. [exDown, exDown, exUp] = pre @ e # post \<and>
      (\<forall>x\<in>set pre. subConfigError x = None \<and> \<not> stoppedRead x \<and> subDialError x \<noteq> None) \<and>
      subConfigError e = None \<and> \<not> stoppedRead e \<and> subDialError e = None \<and>
      snd (subscribeRun exManipulator None False True subInit [exDown, exDown, exUp]) =
        concat (map (\<lambda>x. retryActs (eventsURL exManipulator False x)) pre) @
        DialSucceeded (eventsURL exManipulator False e) # PublishDisconnectFunc # rest"
    by blast
  from a dn(3) up(3) b(1) c d show ?thesis by blast
qed

end
